theory Spec2Isabelle
  imports Complex_Main
begin

section \<open>JavaScript values\<close>

text \<open>
  The service is two Express programs over the same five routes: the strict variant
  (the unnamed file \<open>part_000\<close>) and the lenient variant (\<open>habitaciones.js\<close>). Both
  only move JSON values between the request, the store client and the response, so the
  model starts with the values of JavaScript that JSON can denote.

  A string is its sequence of UTF-16 code units. \<open>js\<close> writes an ASCII literal; the
  accented letters of the messages are given by their code units (225, 243, 250).
\<close>

type_synonym jsstring = "nat list"

definition js :: "string \<Rightarrow> jsstring" where
  "js s = map (of_char :: char \<Rightarrow> nat) s"

text \<open>
  A Number is NaN, an infinity or a finite double. A finite double is represented by the
  rational it denotes. The programs never do arithmetic on a number: they test it for
  NaN, for truthiness and against zero, and otherwise pass it on unchanged. The two zeros
  are not told apart by any of these tests and are one value here.
\<close>

datatype jsnum = NaN | Fin rat | PosInfinity | NegInfinity

datatype jsval =
    JUndefined
  | JNull
  | JBool bool
  | JNum jsnum
  | JStr jsstring
  | JArr "jsval list"
  | JObj "(jsstring \<times> jsval) list"

datatype js_error = TypeError

text \<open>ToBoolean, the test behind \<open>!x\<close>, \<open>x && y\<close> and \<open>if (x)\<close>.\<close>

fun truthy :: "jsval \<Rightarrow> bool" where
  "truthy JUndefined = False"
| "truthy JNull = False"
| "truthy (JBool b) = b"
| "truthy (JNum NaN) = False"
| "truthy (JNum (Fin r)) = (r \<noteq> 0)"
| "truthy (JNum PosInfinity) = True"
| "truthy (JNum NegInfinity) = True"
| "truthy (JStr s) = (s \<noteq> [])"
| "truthy (JArr xs) = True"
| "truthy (JObj kvs) = True"

text \<open>\<open>typeof x\<close>, for the two results the programs compare it with.\<close>

fun is_string :: "jsval \<Rightarrow> bool" where
  "is_string (JStr s) = True"
| "is_string v = False"

fun is_boolean :: "jsval \<Rightarrow> bool" where
  "is_boolean (JBool b) = True"
| "is_boolean v = False"

text \<open>
  Reading a property of an object parsed from JSON: its own properties are the pairs of
  the list (the first pair of a name is the property), and a name it does not have is
  \<open>undefined\<close>. The programs read \<open>num_habi\<close>, \<open>tipo\<close>, \<open>capacidad\<close>, \<open>precio\<close>,
  \<open>estado\<close> and \<open>length\<close>, none of which \<open>Object.prototype\<close> defines.
\<close>

type_synonym jsobject = "(jsstring \<times> jsval) list"

definition prop_of :: "jsobject \<Rightarrow> jsstring \<Rightarrow> jsval" where
  "prop_of kvs k = (case map_of kvs k of Some v \<Rightarrow> v | None \<Rightarrow> JUndefined)"

text \<open>
  \<open>x.length\<close> for a value that is neither \<open>null\<close> nor \<open>undefined\<close> (the programs read
  it only behind \<open>!data ||\<close>).
\<close>

fun js_length :: "jsval \<Rightarrow> jsval" where
  "js_length (JArr xs) = JNum (Fin (of_nat (length xs)))"
| "js_length (JStr s) = JNum (Fin (of_nat (length s)))"
| "js_length (JObj kvs) = prop_of kvs (js ''length'')"
| "js_length v = JUndefined"

subsection \<open>Strings to numbers\<close>

text \<open>
  The white space and line terminators that \<open>parseInt\<close> and the conversion of a string
  to a number skip: TAB, LF, VT, FF, CR, SP, NBSP, the Unicode space separators, LS, PS
  and the byte order mark.
\<close>

definition is_ws :: "nat \<Rightarrow> bool" where
  "is_ws c = (c \<in> {9, 10, 11, 12, 13, 32, 160, 5760, 8232, 8233, 8239, 8287, 12288, 65279}
     \<or> (8192 \<le> c \<and> c \<le> 8202))"

definition is_digit :: "nat \<Rightarrow> bool" where
  "is_digit c = (48 \<le> c \<and> c \<le> 57)"

text \<open>The value of a run of digits in a radix, most significant digit first.\<close>

definition digits_value :: "nat \<Rightarrow> nat list \<Rightarrow> nat" where
  "digits_value radix ds = foldl (\<lambda>acc d. acc * radix + d) 0 ds"

definition decimal_value :: "jsstring \<Rightarrow> nat" where
  "decimal_value z = digits_value 10 (map (\<lambda>c. c - 48) z)"

text \<open>
  The Number for a mathematical value: beyond the largest double it is an infinity, and
  at most half the smallest denormal it is zero. Inside the range the value stands for
  the double nearest to it; rounding there changes neither its sign nor whether it is
  zero, which is all the programs look at.
\<close>

definition to_double :: "rat \<Rightarrow> jsnum" where
  "to_double v =
     (if v \<ge> 2 ^ 1024 - 2 ^ 970 then PosInfinity
      else if v \<le> - (2 ^ 1024 - 2 ^ 970) then NegInfinity
      else if \<bar>v\<bar> \<le> 1 / 2 ^ 1075 then Fin 0
      else Fin v)"

text \<open>
  \<open>parseInt(s, 10)\<close>: skip leading white space, take an optional sign, then the longest
  run of decimal digits; NaN when that run is empty. Whatever follows the digits is
  ignored.
\<close>

definition parseInt :: "jsstring \<Rightarrow> jsnum" where
  "parseInt s =
     (let s1 = dropWhile is_ws s;
          neg = (s1 \<noteq> [] \<and> hd s1 = 45);
          s2 = (if s1 \<noteq> [] \<and> (hd s1 = 43 \<or> hd s1 = 45) then tl s1 else s1);
          z = takeWhile is_digit s2
      in if z = [] then NaN
         else to_double ((if neg then -1 else 1) * of_nat (decimal_value z)))"

text \<open>
  The conversion of a string to a Number (StringToNumber): white space is trimmed at both
  ends; the empty string is 0; otherwise the text must be, as a whole, a signed decimal
  literal (\<open>Infinity\<close>, digits with an optional fraction and exponent) or an unsigned
  binary, octal or hexadecimal integer literal, and is NaN when it is not.
\<close>

definition digit_of :: "nat \<Rightarrow> nat \<Rightarrow> nat option" where
  "digit_of radix c =
     (let d = (if 48 \<le> c \<and> c \<le> 57 then Some (c - 48)
               else if 97 \<le> c \<and> c \<le> 102 then Some (c - 87)
               else if 65 \<le> c \<and> c \<le> 70 then Some (c - 55)
               else None)
      in case d of Some n \<Rightarrow> (if n < radix then Some n else None) | None \<Rightarrow> None)"

definition non_decimal_literal :: "jsstring \<Rightarrow> nat option" where
  "non_decimal_literal t =
     (case t of
        z # p # ds \<Rightarrow>
          (let radix = (if p = 120 \<or> p = 88 then 16
                        else if p = 111 \<or> p = 79 then 8
                        else if p = 98 \<or> p = 66 then 2 else (0::nat))
           in if z = 48 \<and> radix \<noteq> 0 \<and> ds \<noteq> [] \<and> list_all (\<lambda>c. digit_of radix c \<noteq> None) ds
              then Some (digits_value radix (map (\<lambda>c. the (digit_of radix c)) ds))
              else None)
      | _ \<Rightarrow> None)"

definition exponent_part :: "jsstring \<Rightarrow> int option" where
  "exponent_part r =
     (case r of
        [] \<Rightarrow> Some 0
      | c # t \<Rightarrow>
          (let neg = (t \<noteq> [] \<and> hd t = 45);
               d = (if t \<noteq> [] \<and> (hd t = 43 \<or> hd t = 45) then tl t else t)
           in if (c = 101 \<or> c = 69) \<and> d \<noteq> [] \<and> list_all is_digit d
              then Some ((if neg then -1 else 1) * int (decimal_value d))
              else None))"

definition decimal_literal :: "jsstring \<Rightarrow> jsnum" where
  "decimal_literal t =
     (let neg = (t \<noteq> [] \<and> hd t = 45);
          u = (if t \<noteq> [] \<and> (hd t = 43 \<or> hd t = 45) then tl t else t);
          sign = (if neg then -1 else 1 :: rat);
          ip = takeWhile is_digit u;
          r1 = dropWhile is_digit u;
          dot = (r1 \<noteq> [] \<and> hd r1 = 46);
          fp = (if dot then takeWhile is_digit (tl r1) else []);
          r2 = (if dot then dropWhile is_digit (tl r1) else r1)
      in if u = js ''Infinity'' then (if neg then NegInfinity else PosInfinity)
         else if ip = [] \<and> fp = [] then NaN
         else (case exponent_part r2 of
                 None \<Rightarrow> NaN
               | Some e \<Rightarrow>
                   to_double (sign
                     * (of_nat (decimal_value ip) + of_nat (decimal_value fp) / 10 ^ length fp)
                     * (if 0 \<le> e then 10 ^ nat e else 1 / 10 ^ nat (- e)))))"

definition string_to_number :: "jsstring \<Rightarrow> jsnum" where
  "string_to_number s =
     (let t = rev (dropWhile is_ws (rev (dropWhile is_ws s)))
      in if t = [] then Fin 0
         else (case non_decimal_literal t of
                 Some n \<Rightarrow> to_double (of_nat n)
               | None \<Rightarrow> decimal_literal t))"

subsection \<open>Values to numbers\<close>

text \<open>
  ToString of a value raises a TypeError exactly when an object in it has an own property
  \<open>toString\<close>: a property parsed from JSON is never a function, so it hides
  \<open>Object.prototype.toString\<close> and leaves the conversion with nothing to call. An array
  converts each of its elements (\<open>join\<close>), so it raises when one of them does.
\<close>

fun to_string_throws :: "jsval \<Rightarrow> bool" where
  "to_string_throws (JObj kvs) = (js ''toString'' \<in> fst ` set kvs)"
| "to_string_throws (JArr xs) = (\<exists>x \<in> set xs. to_string_throws x)"
| "to_string_throws v = False"

text \<open>
  ToNumber. \<open>undefined\<close> is NaN, \<open>null\<close> is 0, a boolean is 0 or 1, a string is
  converted as above. An object is first made a string: a plain object is
  \<open>[object Object]\<close>, hence NaN; an array is the strings of its elements joined by
  commas (\<open>null\<close> and \<open>undefined\<close> give the empty string), so the empty array is 0, an
  array of one element is what that element's string denotes (for a number, the number
  itself), and a longer array, having a comma in its string, is NaN.
\<close>

fun to_number :: "jsval \<Rightarrow> js_error + jsnum" where
  "to_number JUndefined = Inr NaN"
| "to_number JNull = Inr (Fin 0)"
| "to_number (JBool b) = Inr (Fin (if b then 1 else 0))"
| "to_number (JNum n) = Inr n"
| "to_number (JStr s) = Inr (string_to_number s)"
| "to_number (JObj kvs) = (if to_string_throws (JObj kvs) then Inl TypeError else Inr NaN)"
| "to_number (JArr []) = Inr (Fin 0)"
| "to_number (JArr [JUndefined]) = Inr (Fin 0)"
| "to_number (JArr [JNull]) = Inr (Fin 0)"
| "to_number (JArr [JBool b]) = Inr NaN"
| "to_number (JArr [JNum n]) = Inr n"
| "to_number (JArr [JStr s]) = Inr (string_to_number s)"
| "to_number (JArr [JObj kvs]) = to_number (JObj kvs)"
| "to_number (JArr [JArr ys]) = to_number (JArr ys)"
| "to_number (JArr (x # y # zs)) =
     (if to_string_throws (JArr (x # y # zs)) then Inl TypeError else Inr NaN)"

text \<open>The global \<open>isNaN(x)\<close>: convert, then test.\<close>

definition js_isNaN :: "jsval \<Rightarrow> js_error + bool" where
  "js_isNaN v = (case to_number v of Inl e \<Rightarrow> Inl e | Inr n \<Rightarrow> Inr (n = NaN))"

text \<open>\<open>x <= 0\<close> on Numbers: false for NaN.\<close>

fun num_le_zero :: "jsnum \<Rightarrow> bool" where
  "num_le_zero NaN = False"
| "num_le_zero (Fin r) = (r \<le> 0)"
| "num_le_zero PosInfinity = False"
| "num_le_zero NegInfinity = True"

text \<open>\<open>x <= 0\<close> on any value: the right operand is a Number, so the left one is converted.\<close>

definition js_le_zero :: "jsval \<Rightarrow> js_error + bool" where
  "js_le_zero v = (case to_number v of Inl e \<Rightarrow> Inl e | Inr n \<Rightarrow> Inr (num_le_zero n))"

text \<open>\<open>isNaN(x) || x <= 0\<close>, left to right: the comparison runs only when the test is false.\<close>

definition nan_or_le_zero :: "jsval \<Rightarrow> js_error + bool" where
  "nan_or_le_zero v =
     (case js_isNaN v of
        Inl e \<Rightarrow> Inl e
      | Inr True \<Rightarrow> Inr True
      | Inr False \<Rightarrow> js_le_zero v)"

section \<open>The store client and the response\<close>

text \<open>
  The store client is a third-party library: the programs only build queries on the
  collection \<open>habitaciones\<close> and await \<open>{ data, error }\<close>. A query is the chain of
  builder calls the source writes; the client answers with \<open>data\<close> (a row, an array of
  rows or \<open>null\<close>) and \<open>error\<close> (\<open>null\<close>, or an object with a \<open>message\<close>). The store
  itself is a parameter of every handler: any function from a query and the store's state
  to an answer and the next state.
\<close>

record store_error =
  message :: jsstring

record store_result =
  data :: jsval
  error :: "store_error option"

text \<open>
  Modelled from the spec: the store client is an external library, and the spec gives the
  answer of its single-row query as \<open>selectOne(filter) -> row|error\<close>: a row and no error,
  or an error and no row. That no row matches the filter is reported as an error
  (\<open>.single()\<close>). Only the lenient GET by id depends on it.
\<close>

fun is_row :: "jsval \<Rightarrow> bool" where
  "is_row (JObj kvs) = True"
| "is_row v = False"

definition row_or_error :: "store_result \<Rightarrow> bool" where
  "row_or_error r = (case error r of None \<Rightarrow> is_row (data r) | Some e \<Rightarrow> data r = JNull)"

datatype store_call =
    SelectAll
    \<comment> \<open>\<open>.select('*')\<close>\<close>
  | SelectSingle jsstring jsval
    \<comment> \<open>\<open>.select('*').eq(column, v).single()\<close>\<close>
  | InsertSingle jsval
    \<comment> \<open>\<open>.insert([row]).select('*').single()\<close>\<close>
  | UpdateSingle jsval jsstring jsval
    \<comment> \<open>\<open>.update(row).eq(column, v).select('*').single()\<close>\<close>
  | DeleteEq jsstring jsval
    \<comment> \<open>\<open>.delete().eq(column, v)\<close>\<close>

type_synonym 's store = "store_call \<Rightarrow> 's \<Rightarrow> store_result \<times> 's"

text \<open>
  What a handler runs in: the state of the store and the log of the queries awaited so
  far, oldest first.
\<close>

type_synonym 's world = "'s \<times> store_call list"

definition await :: "'s store \<Rightarrow> store_call \<Rightarrow> 's world \<Rightarrow> store_result \<times> 's world" where
  "await store c w = (case store c (fst w) of (r, s') \<Rightarrow> (r, (s', snd w @ [c])))"

record response =
  status :: nat
  body :: "jsval option"

text \<open>\<open>res.status(n).json(v)\<close> (\<open>res.json(v)\<close> is status 200) and \<open>res.status(n).send()\<close>.\<close>

definition json :: "nat \<Rightarrow> jsval \<Rightarrow> response" where
  "json n v = \<lparr>status = n, body = Some v\<rparr>"

definition send_empty :: "nat \<Rightarrow> response" where
  "send_empty n = \<lparr>status = n, body = None\<rparr>"

text \<open>The object literal \<open>{ error: m }\<close>.\<close>

definition error_body :: "jsstring \<Rightarrow> jsval" where
  "error_body m = JObj [(js ''error'', JStr m)]"

text \<open>The object literal \<open>{ num_habi, tipo, capacidad, precio, estado }\<close>.\<close>

definition room_fields :: "jsval \<Rightarrow> jsval \<Rightarrow> jsval \<Rightarrow> jsval \<Rightarrow> jsval \<Rightarrow> jsval" where
  "room_fields num_habi tipo capacidad precio estado =
     JObj [(js ''num_habi'', num_habi), (js ''tipo'', tipo), (js ''capacidad'', capacidad),
           (js ''precio'', precio), (js ''estado'', estado)]"

subsection \<open>The messages\<close>

definition msg_no_rooms :: jsstring where
  "msg_no_rooms = js ''No hay habitaciones registradas''"

definition msg_bad_id :: jsstring where
  "msg_bad_id = js ''ID inv'' @ [225] @ js ''lido. Debe ser un n'' @ [250] @ js ''mero entero positivo.''"

definition msg_not_found :: jsstring where
  "msg_not_found = js ''Habitaci'' @ [243] @ js ''n no encontrada''"

definition msg_required :: jsstring where
  "msg_required = js ''Todos los campos son obligatorios.''"

definition msg_taken :: jsstring where
  "msg_taken = js ''El n'' @ [250] @ js ''mero de habitaci'' @ [243] @ js ''n ya existe.''"

definition msg_bad_num_habi :: jsstring where
  "msg_bad_num_habi =
     js ''Numero de habitacion invalida! Debe ser un n'' @ [250] @ js ''mero entero positivo.''"

definition msg_bad_tipo :: jsstring where
  "msg_bad_tipo = js ''El tipo debe ser una cadena de texto.''"

definition msg_bad_capacidad :: jsstring where
  "msg_bad_capacidad =
     js ''Capacidad inv'' @ [225] @ js ''lida. Debe ser un n'' @ [250] @ js ''mero entero positivo.''"

definition msg_bad_precio :: jsstring where
  "msg_bad_precio =
     js ''Precio inv'' @ [225] @ js ''lido. Debe ser un n'' @ [250] @ js ''mero entero positivo.''"

definition msg_bad_estado :: jsstring where
  "msg_bad_estado = js ''El estado debe ser un valor booleano (true o false).''"

section \<open>The strict variant\<close>

text \<open>
  Each handler takes the store, the request (the \<open>:id\<close> path parameter as the string
  Express hands over, the body as the object the JSON middleware parsed) and the world,
  and returns the response with the world it leaves.
\<close>

definition get_habitaciones_strict :: "'s store \<Rightarrow> 's world \<Rightarrow> response \<times> 's world" where
  "get_habitaciones_strict store w =
     (case await store SelectAll w of
        (r, w1) \<Rightarrow>
          (case error r of
             Some e \<Rightarrow> (json 500 (error_body (message e)), w1)
           | None \<Rightarrow>
               if \<not> truthy (data r) \<or> js_length (data r) = JNum (Fin 0)
               then (json 404 (error_body msg_no_rooms), w1)
               else (json 200 (data r), w1)))"

definition get_habitacion_strict ::
  "'s store \<Rightarrow> jsstring \<Rightarrow> 's world \<Rightarrow> response \<times> 's world" where
  "get_habitacion_strict store id_param w =
     (let id = parseInt id_param
      in if id = NaN \<or> num_le_zero id then (json 400 (error_body msg_bad_id), w)
         else (case await store (SelectSingle (js ''habitacion_id'') (JNum id)) w of
                 (r, w1) \<Rightarrow>
                   if error r \<noteq> None \<or> \<not> truthy (data r)
                   then (json 404 (error_body msg_not_found), w1)
                   else (json 200 (data r), w1)))"

definition post_habitaciones_strict ::
  "'s store \<Rightarrow> jsobject \<Rightarrow> 's world \<Rightarrow> response \<times> 's world" where
  "post_habitaciones_strict store req_body w =
     (let num_habi = prop_of req_body (js ''num_habi'');
          tipo = prop_of req_body (js ''tipo'');
          capacidad = prop_of req_body (js ''capacidad'');
          precio = prop_of req_body (js ''precio'');
          estado = prop_of req_body (js ''estado'')
      in if \<not> truthy num_habi \<or> \<not> truthy tipo \<or> \<not> truthy capacidad \<or> \<not> truthy precio
            \<or> estado = JUndefined
         then (json 400 (error_body msg_required), w)
         else (case await store (SelectSingle (js ''num_habi'') num_habi) w of
                 (existe, w1) \<Rightarrow>
                   if truthy (data existe) then (json 409 (error_body msg_taken), w1)
                   else (case await store
                                (InsertSingle (room_fields num_habi tipo capacidad precio estado)) w1 of
                           (r, w2) \<Rightarrow>
                             (case error r of
                                Some e \<Rightarrow> (json 500 (error_body (message e)), w2)
                              | None \<Rightarrow> (json 201 (data r), w2)))))"

text \<open>
  PATCH converts body fields to numbers, which can raise; a handler that raises sends no
  response of its own, so its result is the error.
\<close>

definition patch_habitaciones_strict ::
  "'s store \<Rightarrow> jsstring \<Rightarrow> jsobject \<Rightarrow> 's world \<Rightarrow> (js_error + response) \<times> 's world" where
  "patch_habitaciones_strict store id_param req_body w =
     (let id = parseInt id_param;
          num_habi = prop_of req_body (js ''num_habi'');
          tipo = prop_of req_body (js ''tipo'');
          capacidad = prop_of req_body (js ''capacidad'');
          precio = prop_of req_body (js ''precio'');
          estado = prop_of req_body (js ''estado'')
      in if id = NaN \<or> num_le_zero id then (Inr (json 400 (error_body msg_bad_id)), w)
         else (case nan_or_le_zero num_habi of
           Inl e \<Rightarrow> (Inl e, w)
         | Inr True \<Rightarrow> (Inr (json 400 (error_body msg_bad_num_habi)), w)
         | Inr False \<Rightarrow>
         if truthy tipo \<and> \<not> is_string tipo then (Inr (json 400 (error_body msg_bad_tipo)), w)
         else (case (if truthy capacidad then nan_or_le_zero capacidad else Inr False) of
           Inl e \<Rightarrow> (Inl e, w)
         | Inr True \<Rightarrow> (Inr (json 400 (error_body msg_bad_capacidad)), w)
         | Inr False \<Rightarrow>
        (case (if truthy precio then nan_or_le_zero precio else Inr False) of
           Inl e \<Rightarrow> (Inl e, w)
         | Inr True \<Rightarrow> (Inr (json 400 (error_body msg_bad_precio)), w)
         | Inr False \<Rightarrow>
         if estado \<noteq> JUndefined \<and> \<not> is_boolean estado
         then (Inr (json 400 (error_body msg_bad_estado)), w)
         else (case await store (SelectSingle (js ''habitacion_id'') (JNum id)) w of
                 (existente, w1) \<Rightarrow>
                   if \<not> truthy (data existente)
                   then (Inr (json 404 (error_body msg_not_found)), w1)
                   else (case await store
                                (UpdateSingle (room_fields num_habi tipo capacidad precio estado)
                                   (js ''habitacion_id'') (JNum id)) w1 of
                           (r, w2) \<Rightarrow>
                             (case error r of
                                Some e \<Rightarrow> (Inr (json 500 (error_body (message e))), w2)
                              | None \<Rightarrow> (Inr (json 200 (data r)), w2))))))))"

definition delete_habitaciones_strict ::
  "'s store \<Rightarrow> jsstring \<Rightarrow> 's world \<Rightarrow> response \<times> 's world" where
  "delete_habitaciones_strict store id_param w =
     (let id = parseInt id_param
      in if id = NaN \<or> num_le_zero id then (json 400 (error_body msg_bad_id), w)
         else (case await store (SelectSingle (js ''habitacion_id'') (JNum id)) w of
                 (existente, w1) \<Rightarrow>
                   if \<not> truthy (data existente)
                   then (json 404 (error_body msg_not_found), w1)
                   else (case await store (DeleteEq (js ''habitacion_id'') (JNum id)) w1 of
                           (r, w2) \<Rightarrow>
                             (case error r of
                                Some e \<Rightarrow> (json 500 (error_body (message e)), w2)
                              | None \<Rightarrow> (send_empty 204, w2)))))"

section \<open>The lenient variant\<close>

text \<open>The lenient handlers pass the \<open>:id\<close> string to the store as it is.\<close>

definition get_habitaciones_lenient :: "'s store \<Rightarrow> 's world \<Rightarrow> response \<times> 's world" where
  "get_habitaciones_lenient store w =
     (case await store SelectAll w of
        (r, w1) \<Rightarrow>
          (case error r of
             Some e \<Rightarrow> (json 500 (error_body (message e)), w1)
           | None \<Rightarrow> (json 200 (data r), w1)))"

definition get_habitacion_lenient ::
  "'s store \<Rightarrow> jsstring \<Rightarrow> 's world \<Rightarrow> response \<times> 's world" where
  "get_habitacion_lenient store id_param w =
     (case await store (SelectSingle (js ''habitacion_id'') (JStr id_param)) w of
        (r, w1) \<Rightarrow>
          (case error r of
             Some e \<Rightarrow> (json 404 (error_body msg_not_found), w1)
           | None \<Rightarrow> (json 200 (data r), w1)))"

definition post_habitaciones_lenient ::
  "'s store \<Rightarrow> jsobject \<Rightarrow> 's world \<Rightarrow> response \<times> 's world" where
  "post_habitaciones_lenient store req_body w =
     (let num_habi = prop_of req_body (js ''num_habi'');
          tipo = prop_of req_body (js ''tipo'');
          capacidad = prop_of req_body (js ''capacidad'');
          precio = prop_of req_body (js ''precio'');
          estado = prop_of req_body (js ''estado'')
      in case await store (InsertSingle (room_fields num_habi tipo capacidad precio estado)) w of
           (r, w1) \<Rightarrow>
             (case error r of
                Some e \<Rightarrow> (json 500 (error_body (message e)), w1)
              | None \<Rightarrow> (json 201 (data r), w1)))"

definition put_habitaciones_lenient ::
  "'s store \<Rightarrow> jsstring \<Rightarrow> jsobject \<Rightarrow> 's world \<Rightarrow> response \<times> 's world" where
  "put_habitaciones_lenient store id_param req_body w =
     (let num_habi = prop_of req_body (js ''num_habi'');
          tipo = prop_of req_body (js ''tipo'');
          capacidad = prop_of req_body (js ''capacidad'');
          precio = prop_of req_body (js ''precio'');
          estado = prop_of req_body (js ''estado'')
      in case await store
                (UpdateSingle (room_fields num_habi tipo capacidad precio estado)
                   (js ''habitacion_id'') (JStr id_param)) w of
           (r, w1) \<Rightarrow>
             (case error r of
                Some e \<Rightarrow> (json 500 (error_body (message e)), w1)
              | None \<Rightarrow> (json 200 (data r), w1)))"

definition delete_habitaciones_lenient ::
  "'s store \<Rightarrow> jsstring \<Rightarrow> 's world \<Rightarrow> response \<times> 's world" where
  "delete_habitaciones_lenient store id_param w =
     (case await store (DeleteEq (js ''habitacion_id'') (JStr id_param)) w of
        (r, w1) \<Rightarrow>
          (case error r of
             Some e \<Rightarrow> (json 500 (error_body (message e)), w1)
           | None \<Rightarrow> (send_empty 204, w1)))"

section \<open>Stores for the examples\<close>

text \<open>
  The theorems hold for every store. Their examples run the handlers against two stubs:
  one that answers every query with the same result and never changes, and one that
  answers the queries in turn from a script (and reports an error once the script is
  used up).
\<close>

definition const_store :: "store_result \<Rightarrow> 's store" where
  "const_store r c s = (r, s)"

definition scripted_store :: "store_result list store" where
  "scripted_store c script =
     (case script of
        [] \<Rightarrow> (\<lparr>data = JNull, error = Some \<lparr>message = js ''script exhausted''\<rparr>\<rparr>, [])
      | r # rest \<Rightarrow> (r, rest))"

text \<open>A stored room, as the store returns it.\<close>

definition room_row :: "rat \<Rightarrow> rat \<Rightarrow> jsval" where
  "room_row hid num =
     JObj [(js ''habitacion_id'', JNum (Fin hid)), (js ''num_habi'', JNum (Fin num)),
           (js ''tipo'', JStr (js ''doble'')), (js ''capacidad'', JNum (Fin 2)),
           (js ''precio'', JNum (Fin 500)), (js ''estado'', JBool True)]"

text \<open>
  A table of rows whose reads fail: every select, update and delete reports an error and
  leaves the rows as they are, while an insert appends the row and returns it. It
  stands for a store that is unreachable for a moment, or whose \<open>.single()\<close> finds more
  than one match. \<open>row_has\<close> says that a stored row holds a value in a column.
\<close>

fun row_has :: "jsstring \<Rightarrow> jsval \<Rightarrow> jsval \<Rightarrow> bool" where
  "row_has col v (JObj kvs) = (prop_of kvs col = v)"
| "row_has col v x = False"

definition reads_fail_store :: "jsval list store" where
  "reads_fail_store c rows =
     (case c of
        InsertSingle row \<Rightarrow> (\<lparr>data = row, error = None\<rparr>, rows @ [row])
      | _ \<Rightarrow> (\<lparr>data = JNull, error = Some \<lparr>message = js ''timeout''\<rparr>\<rparr>, rows))"

section \<open>Evaluating the model\<close>

text \<open>
  Facts that let the simplifier run the handlers on concrete requests: literals are equal
  exactly when their texts are, and a property is looked up pair by pair.
\<close>

lemma json_eq_iff: "json m u = json n v \<longleftrightarrow> m = n \<and> u = v"
  by (auto simp: json_def)

lemma js_eq_iff: "js a = js b \<longleftrightarrow> a = b"
  unfolding js_def by (rule inj_map_eq_map) (rule inj_of_char)

lemma js_empty_iff: "js a = [] \<longleftrightarrow> a = []"
  by (simp add: js_def)

lemma prop_of_Nil: "prop_of [] k = JUndefined"
  by (simp add: prop_of_def)

lemma prop_of_Cons: "prop_of ((k', v) # kvs) k = (if k' = k then v else prop_of kvs k)"
  by (simp add: prop_of_def)

lemmas eval_simps = js_eq_iff js_empty_iff prop_of_Nil prop_of_Cons scripted_store_def
  const_store_def room_row_def nan_or_le_zero_def js_isNaN_def js_le_zero_def

lemma parseInt_examples:
  "parseInt (js ''5'') = Fin 5" "parseInt (js ''7'') = Fin 7"
  "parseInt (js ''12abc'') = Fin 12" "parseInt (js ''abc'') = NaN"
  "parseInt (js ''0'') = Fin 0" "parseInt (js ''-5'') = Fin (- 5)"
  by (simp_all add: parseInt_def js_def is_ws_def is_digit_def decimal_value_def digits_value_def
      to_double_def)

section \<open>What each handler does, query by query\<close>

text \<open>
  Each handler is rewritten as a function of the answers of the store: which queries it
  awaits, in which state, and which response each combination of answers gives. The
  statements of the following sections are read off these equations.
\<close>

lemma list_strict_run:
  "get_habitaciones_strict store (s, l) =
    (let r = fst (store SelectAll s); s1 = snd (store SelectAll s)
     in case error r of
          Some e \<Rightarrow> (json 500 (error_body (message e)), (s1, l @ [SelectAll]))
        | None \<Rightarrow>
            if \<not> truthy (data r) \<or> js_length (data r) = JNum (Fin 0)
            then (json 404 (error_body msg_no_rooms), (s1, l @ [SelectAll]))
            else (json 200 (data r), (s1, l @ [SelectAll])))"
  unfolding get_habitaciones_strict_def Let_def await_def
  by (auto split: prod.splits option.splits)

lemma list_lenient_run:
  "get_habitaciones_lenient store (s, l) =
    (let r = fst (store SelectAll s); s1 = snd (store SelectAll s)
     in case error r of
          Some e \<Rightarrow> (json 500 (error_body (message e)), (s1, l @ [SelectAll]))
        | None \<Rightarrow> (json 200 (data r), (s1, l @ [SelectAll])))"
  unfolding get_habitaciones_lenient_def Let_def await_def
  by (simp split: prod.splits option.splits)

lemma get_one_strict_bad_id:
  assumes "parseInt i = NaN \<or> num_le_zero (parseInt i)"
  shows "get_habitacion_strict store i w = (json 400 (error_body msg_bad_id), w)"
  using assms unfolding get_habitacion_strict_def Let_def by (simp only: if_True)

lemma get_one_strict_proceeds:
  assumes "parseInt i \<noteq> NaN" "\<not> num_le_zero (parseInt i)"
  shows "get_habitacion_strict store i (s, l) =
    (let q = SelectSingle (js ''habitacion_id'') (JNum (parseInt i));
         r = fst (store q s); s1 = snd (store q s)
     in if error r \<noteq> None \<or> \<not> truthy (data r)
        then (json 404 (error_body msg_not_found), (s1, l @ [q]))
        else (json 200 (data r), (s1, l @ [q])))"
  using assms unfolding get_habitacion_strict_def Let_def await_def
  by (auto split: prod.splits option.splits)

lemma get_one_lenient_run:
  "get_habitacion_lenient store i (s, l) =
    (let q = SelectSingle (js ''habitacion_id'') (JStr i);
         r = fst (store q s); s1 = snd (store q s)
     in case error r of
          Some e \<Rightarrow> (json 404 (error_body msg_not_found), (s1, l @ [q]))
        | None \<Rightarrow> (json 200 (data r), (s1, l @ [q])))"
  unfolding get_habitacion_lenient_def Let_def await_def
  by (simp split: prod.splits option.splits)

lemma post_strict_rejects:
  assumes "\<not> truthy (prop_of b (js ''num_habi'')) \<or> \<not> truthy (prop_of b (js ''tipo''))
     \<or> \<not> truthy (prop_of b (js ''capacidad'')) \<or> \<not> truthy (prop_of b (js ''precio''))
     \<or> prop_of b (js ''estado'') = JUndefined"
  shows "post_habitaciones_strict store b w = (json 400 (error_body msg_required), w)"
  using assms unfolding post_habitaciones_strict_def Let_def by (simp only: if_True)

lemma post_strict_proceeds:
  assumes "truthy (prop_of b (js ''num_habi''))" "truthy (prop_of b (js ''tipo''))"
    "truthy (prop_of b (js ''capacidad''))" "truthy (prop_of b (js ''precio''))"
    "prop_of b (js ''estado'') \<noteq> JUndefined"
  shows "post_habitaciones_strict store b (s, l) =
    (let q = SelectSingle (js ''num_habi'') (prop_of b (js ''num_habi''));
         ins = InsertSingle (room_fields (prop_of b (js ''num_habi'')) (prop_of b (js ''tipo''))
                 (prop_of b (js ''capacidad'')) (prop_of b (js ''precio''))
                 (prop_of b (js ''estado'')));
         r0 = fst (store q s); s1 = snd (store q s);
         r = fst (store ins s1); s2 = snd (store ins s1)
     in if truthy (data r0) then (json 409 (error_body msg_taken), (s1, l @ [q]))
        else case error r of
               Some e \<Rightarrow> (json 500 (error_body (message e)), (s2, l @ [q, ins]))
             | None \<Rightarrow> (json 201 (data r), (s2, l @ [q, ins])))"
  using assms unfolding post_habitaciones_strict_def Let_def await_def
  by (simp split: prod.splits option.splits)

lemma post_lenient_run:
  "post_habitaciones_lenient store b (s, l) =
    (let ins = InsertSingle (room_fields (prop_of b (js ''num_habi'')) (prop_of b (js ''tipo''))
                 (prop_of b (js ''capacidad'')) (prop_of b (js ''precio''))
                 (prop_of b (js ''estado'')));
         r = fst (store ins s); s1 = snd (store ins s)
     in case error r of
          Some e \<Rightarrow> (json 500 (error_body (message e)), (s1, l @ [ins]))
        | None \<Rightarrow> (json 201 (data r), (s1, l @ [ins])))"
  unfolding post_habitaciones_lenient_def Let_def await_def
  by (simp split: prod.splits option.splits)

lemma patch_strict_bad_id:
  assumes "parseInt i = NaN \<or> num_le_zero (parseInt i)"
  shows "patch_habitaciones_strict store i b w = (Inr (json 400 (error_body msg_bad_id)), w)"
  using assms unfolding patch_habitaciones_strict_def Let_def by (simp only: if_True)

lemma patch_strict_proceeds:
  assumes "parseInt i \<noteq> NaN" "\<not> num_le_zero (parseInt i)"
    and "nan_or_le_zero (prop_of b (js ''num_habi'')) = Inr False"
    and "\<not> (truthy (prop_of b (js ''tipo'')) \<and> \<not> is_string (prop_of b (js ''tipo'')))"
    and "(if truthy (prop_of b (js ''capacidad''))
          then nan_or_le_zero (prop_of b (js ''capacidad'')) else Inr False) = Inr False"
    and "(if truthy (prop_of b (js ''precio''))
          then nan_or_le_zero (prop_of b (js ''precio'')) else Inr False) = Inr False"
    and "\<not> (prop_of b (js ''estado'') \<noteq> JUndefined \<and> \<not> is_boolean (prop_of b (js ''estado'')))"
  shows "patch_habitaciones_strict store i b (s, l) =
    (let q = SelectSingle (js ''habitacion_id'') (JNum (parseInt i));
         upd = UpdateSingle (room_fields (prop_of b (js ''num_habi'')) (prop_of b (js ''tipo''))
                 (prop_of b (js ''capacidad'')) (prop_of b (js ''precio''))
                 (prop_of b (js ''estado''))) (js ''habitacion_id'') (JNum (parseInt i));
         r0 = fst (store q s); s1 = snd (store q s);
         r = fst (store upd s1); s2 = snd (store upd s1)
     in if \<not> truthy (data r0) then (Inr (json 404 (error_body msg_not_found)), (s1, l @ [q]))
        else case error r of
               Some e \<Rightarrow> (Inr (json 500 (error_body (message e))), (s2, l @ [q, upd]))
             | None \<Rightarrow> (Inr (json 200 (data r)), (s2, l @ [q, upd])))"
  using assms unfolding patch_habitaciones_strict_def Let_def await_def
  by (simp split: prod.splits option.splits)

lemma put_lenient_run:
  "put_habitaciones_lenient store i b (s, l) =
    (let upd = UpdateSingle (room_fields (prop_of b (js ''num_habi'')) (prop_of b (js ''tipo''))
                 (prop_of b (js ''capacidad'')) (prop_of b (js ''precio''))
                 (prop_of b (js ''estado''))) (js ''habitacion_id'') (JStr i);
         r = fst (store upd s); s1 = snd (store upd s)
     in case error r of
          Some e \<Rightarrow> (json 500 (error_body (message e)), (s1, l @ [upd]))
        | None \<Rightarrow> (json 200 (data r), (s1, l @ [upd])))"
  unfolding put_habitaciones_lenient_def Let_def await_def
  by (simp split: prod.splits option.splits)

lemma delete_strict_bad_id:
  assumes "parseInt i = NaN \<or> num_le_zero (parseInt i)"
  shows "delete_habitaciones_strict store i w = (json 400 (error_body msg_bad_id), w)"
  using assms unfolding delete_habitaciones_strict_def Let_def by (simp only: if_True)

lemma delete_strict_proceeds:
  assumes "parseInt i \<noteq> NaN" "\<not> num_le_zero (parseInt i)"
  shows "delete_habitaciones_strict store i (s, l) =
    (let q = SelectSingle (js ''habitacion_id'') (JNum (parseInt i));
         del = DeleteEq (js ''habitacion_id'') (JNum (parseInt i));
         r0 = fst (store q s); s1 = snd (store q s);
         r = fst (store del s1); s2 = snd (store del s1)
     in if \<not> truthy (data r0) then (json 404 (error_body msg_not_found), (s1, l @ [q]))
        else case error r of
               Some e \<Rightarrow> (json 500 (error_body (message e)), (s2, l @ [q, del]))
             | None \<Rightarrow> (send_empty 204, (s2, l @ [q, del])))"
  using assms unfolding delete_habitaciones_strict_def Let_def await_def
  by (simp split: prod.splits option.splits)

lemma delete_lenient_run:
  "delete_habitaciones_lenient store i (s, l) =
    (let del = DeleteEq (js ''habitacion_id'') (JStr i);
         r = fst (store del s); s1 = snd (store del s)
     in case error r of
          Some e \<Rightarrow> (json 500 (error_body (message e)), (s1, l @ [del]))
        | None \<Rightarrow> (send_empty 204, (s1, l @ [del])))"
  unfolding delete_habitaciones_lenient_def Let_def await_def
  by (simp split: prod.splits option.splits)

section \<open>The id path parameter\<close>

text \<open>
  \<open>parseInt\<close> reads the digits an id starts with and ignores the rest, and the Number of
  a positive integer is neither NaN nor at most zero: an id that starts with a positive
  integer passes \<open>isNaN(id) || id <= 0\<close> whatever follows the digits.
\<close>

lemma digit_not_ws: "is_digit c \<Longrightarrow> \<not> is_ws c \<and> c \<noteq> 43 \<and> c \<noteq> 45"
  by (auto simp: is_digit_def is_ws_def)

lemma parseInt_ignores_trailing_text:
  assumes "ds \<noteq> []" and "list_all is_digit ds" and "rest \<noteq> []" and "\<not> is_digit (hd rest)"
  shows "parseInt (ds @ rest) = to_double (of_nat (decimal_value ds))"
proof -
  from assms(1) obtain d ds' where ds: "ds = d # ds'" by (cases ds) auto
  with assms(2) have d: "is_digit d" by simp
  have ws: "dropWhile is_ws (ds @ rest) = ds @ rest"
    using d digit_not_ws [of d] by (simp add: ds)
  have tk: "takeWhile is_digit (ds @ rest) = ds"
  proof -
    have "\<forall>x \<in> set ds. is_digit x" using assms(2) by (simp add: list_all_iff)
    moreover from assms(3) obtain c cs where rest: "rest = c # cs" by (cases rest) auto
    ultimately show ?thesis using assms(4) by (simp add: rest takeWhile_tail)
  qed
  have hd: "hd (ds @ rest) = d" by (simp add: ds)
  show ?thesis
    unfolding parseInt_def Let_def ws
    using d digit_not_ws [of d] assms(1) tk by (simp add: hd)
qed

lemma to_double_positive:
  assumes "0 < n"
  shows "to_double (of_nat n) \<noteq> NaN \<and> \<not> num_le_zero (to_double (of_nat n))"
proof -
  have one: "(1::rat) \<le> of_nat n" using assms by simp
  have small: "(1::rat) / 2 ^ 1075 < 1" by simp
  have big: "(0::rat) \<le> 2 ^ 1024 - 2 ^ 970" by simp
  from one small have "\<not> \<bar>(of_nat n :: rat)\<bar> \<le> 1 / 2 ^ 1075" by linarith
  moreover from one big have "\<not> (of_nat n :: rat) \<le> - (2 ^ 1024 - 2 ^ 970)" by linarith
  ultimately show ?thesis using one by (simp add: to_double_def)
qed

text \<open>
  What the strict variant does reject before any query: an id whose \<open>parseInt\<close> is NaN
  (no digit after the optional white space and sign), zero or negative. The world is
  returned as it was: no query is awaited.
\<close>

lemma invalid_id_rejected_before_store:
  fixes store :: "'s store"
  assumes "parseInt i = NaN \<or> num_le_zero (parseInt i)"
  shows "get_habitacion_strict store i w = (json 400 (error_body msg_bad_id), w)
       \<and> patch_habitaciones_strict store i b w = (Inr (json 400 (error_body msg_bad_id)), w)
       \<and> delete_habitaciones_strict store i w = (json 400 (error_body msg_bad_id), w)"
  using assms
  by (simp add: get_one_strict_bad_id patch_strict_bad_id delete_strict_bad_id)

section \<open>List\<close>

text \<open>
  C7. When the list query reports no error and its data is a collection (an array of
  rows, or \<open>null\<close>): the strict variant answers 404 \<open>No hay habitaciones registradas\<close>
  exactly when the collection is \<open>null\<close> or empty and 200 with the collection otherwise;
  the lenient variant answers 200 with the collection in every case, the empty one
  included.
\<close>

theorem list_empty_collection:
  fixes store :: "'s store" and s :: 's
  defines "r \<equiv> fst (store SelectAll s)"
  assumes "error r = None" and "data r = JNull \<or> data r = JArr rows"
  shows "fst (get_habitaciones_strict store (s, l))
           = (if data r = JNull \<or> data r = JArr []
              then json 404 (error_body msg_no_rooms) else json 200 (data r))
       \<and> fst (get_habitaciones_lenient store (s, l)) = json 200 (data r)"
  using assms
  by (auto simp: list_strict_run list_lenient_run Let_def)

theorem list_empty_collection_witness:
  "fst (get_habitaciones_strict (const_store \<lparr>data = JArr [], error = None\<rparr>) ((), []))
     = json 404 (error_body msg_no_rooms)
   \<and> fst (get_habitaciones_lenient (const_store \<lparr>data = JArr [], error = None\<rparr>) ((), []))
     = json 200 (JArr [])
   \<and> fst (get_habitaciones_strict (const_store \<lparr>data = JNull, error = None\<rparr>) ((), []))
     = json 404 (error_body msg_no_rooms)
   \<and> fst (get_habitaciones_strict
           (const_store \<lparr>data = JArr [room_row 1 101, room_row 2 102], error = None\<rparr>) ((), []))
     = json 200 (JArr [room_row 1 101, room_row 2 102])
   \<and> fst (get_habitaciones_lenient
           (const_store \<lparr>data = JArr [room_row 1 101, room_row 2 102], error = None\<rparr>) ((), []))
     = json 200 (JArr [room_row 1 101, room_row 2 102])"
  using
    list_empty_collection [where store = "const_store \<lparr>data = JArr [], error = None\<rparr>"
      and s = "()" and l = "[]" and rows = "[]"]
    list_empty_collection [where store = "const_store \<lparr>data = JNull, error = None\<rparr>"
      and s = "()" and l = "[]" and rows = "[]"]
    list_empty_collection [where
      store = "const_store \<lparr>data = JArr [room_row 1 101, room_row 2 102], error = None\<rparr>"
      and s = "()" and l = "[]" and rows = "[room_row 1 101, room_row 2 102]"]
  by (simp add: const_store_def)

section \<open>Get by id\<close>

text \<open>
  C5. The strict variant, for an id that passes its validation, answers 200 with the row
  when the single-row query reports no error and carries a row, and
  404 \<open>Habitacion no encontrada\<close> otherwise, whether the query reported an error or
  carried no row. The lenient variant, for every id, queries the store with the id as
  given and tests the error alone: 200 with the data when there is none, the same 404
  when there is one; the client reports a missing row as an error, so a query without a
  row is answered 404 there too. In both variants the query is the only one awaited.
\<close>

theorem get_by_id_conflates_failures:
  fixes store :: "'s store" and i :: jsstring and s :: 's
  defines "not_found \<equiv> json 404 (error_body msg_not_found)"
  defines "q \<equiv> SelectSingle (js ''habitacion_id'') (JNum (parseInt i))"
      and "q' \<equiv> SelectSingle (js ''habitacion_id'') (JStr i)"
  defines "r \<equiv> fst (store q s)" and "r' \<equiv> fst (store q' s)"
  shows "(parseInt i \<noteq> NaN \<and> \<not> num_le_zero (parseInt i)
          \<longrightarrow> get_habitacion_strict store i (s, l)
              = ((if error r = None \<and> truthy (data r) then json 200 (data r) else not_found),
                 (snd (store q s), l @ [q])))
       \<and> get_habitacion_lenient store i (s, l)
           = ((if error r' = None then json 200 (data r') else not_found),
              (snd (store q' s), l @ [q']))
       \<and> (row_or_error r' \<and> data r' = JNull
          \<longrightarrow> fst (get_habitacion_lenient store i (s, l)) = not_found)"
  unfolding not_found_def q_def q'_def r_def r'_def
  by (auto simp: get_one_strict_proceeds get_one_lenient_run Let_def row_or_error_def
        split: option.splits)

text \<open>
  A row found; no row, which the client reports as an error; a failed query; and the
  lenient variant on ids the strict one would not query for.
\<close>

theorem get_by_id_conflates_failures_witness:
  "get_habitacion_strict (const_store \<lparr>data = room_row 5 101, error = None\<rparr>)
          (js ''5'') ((), [])
     = (json 200 (room_row 5 101), ((), [SelectSingle (js ''habitacion_id'') (JNum (Fin 5))]))
   \<and> get_habitacion_lenient (const_store \<lparr>data = room_row 5 101, error = None\<rparr>)
          (js ''5'') ((), [])
     = (json 200 (room_row 5 101), ((), [SelectSingle (js ''habitacion_id'') (JStr (js ''5''))]))
   \<and> get_habitacion_strict
            (const_store \<lparr>data = JNull, error = Some \<lparr>message = js ''no rows''\<rparr>\<rparr>)
            (js ''5'') ((), [])
     = (json 404 (error_body msg_not_found),
        ((), [SelectSingle (js ''habitacion_id'') (JNum (Fin 5))]))
   \<and> get_habitacion_lenient
            (const_store \<lparr>data = JNull, error = Some \<lparr>message = js ''no rows''\<rparr>\<rparr>)
            (js ''5'') ((), [])
     = (json 404 (error_body msg_not_found),
        ((), [SelectSingle (js ''habitacion_id'') (JStr (js ''5''))]))
   \<and> get_habitacion_strict
            (const_store \<lparr>data = JNull, error = Some \<lparr>message = js ''timeout''\<rparr>\<rparr>)
            (js ''5'') ((), [])
     = (json 404 (error_body msg_not_found),
        ((), [SelectSingle (js ''habitacion_id'') (JNum (Fin 5))]))
   \<and> get_habitacion_lenient
            (const_store \<lparr>data = JNull, error = Some \<lparr>message = js ''invalid input syntax''\<rparr>\<rparr>)
            (js ''abc'') ((), [])
     = (json 404 (error_body msg_not_found),
        ((), [SelectSingle (js ''habitacion_id'') (JStr (js ''abc''))]))
   \<and> get_habitacion_lenient
            (const_store \<lparr>data = JNull, error = Some \<lparr>message = js ''no rows''\<rparr>\<rparr>)
            (js ''0'') ((), [])
     = (json 404 (error_body msg_not_found),
        ((), [SelectSingle (js ''habitacion_id'') (JStr (js ''0''))]))"
  using
    get_by_id_conflates_failures [where i = "js ''5''" and s = "()" and l = "[]"
      and store = "const_store \<lparr>data = room_row 5 101, error = None\<rparr>"]
    get_by_id_conflates_failures [where i = "js ''5''" and s = "()" and l = "[]"
      and store = "const_store \<lparr>data = JNull, error = Some \<lparr>message = js ''no rows''\<rparr>\<rparr>"]
    get_by_id_conflates_failures [where i = "js ''5''" and s = "()" and l = "[]"
      and store = "const_store \<lparr>data = JNull, error = Some \<lparr>message = js ''timeout''\<rparr>\<rparr>"]
    get_by_id_conflates_failures [where i = "js ''abc''" and s = "()" and l = "[]"
      and store = "const_store
        \<lparr>data = JNull, error = Some \<lparr>message = js ''invalid input syntax''\<rparr>\<rparr>"]
    get_by_id_conflates_failures [where i = "js ''0''" and s = "()" and l = "[]"
      and store = "const_store \<lparr>data = JNull, error = Some \<lparr>message = js ''no rows''\<rparr>\<rparr>"]
  by (simp add: eval_simps parseInt_examples row_or_error_def)

text \<open>
  C6. The spec asks for 400 on every id that is not numeric. The code validates what
  \<open>parseInt\<close> reads: an id made of digits that denote a positive integer followed by any
  other text is not answered 400. The handler queries the store for that integer and
  answers from the query (here GET by id; PATCH and DELETE validate the same way).
\<close>

theorem get_by_id_accepts_trailing_text:
  fixes store :: "'s store" and ds rest :: jsstring and s :: 's
  defines "q \<equiv> SelectSingle (js ''habitacion_id'') (JNum (to_double (of_nat (decimal_value ds))))"
  assumes "ds \<noteq> []" and "list_all is_digit ds" and "0 < decimal_value ds"
      and "rest \<noteq> []" and "\<not> is_digit (hd rest)"
  shows "get_habitacion_strict store (ds @ rest) (s, l)
           = ((if error (fst (store q s)) \<noteq> None \<or> \<not> truthy (data (fst (store q s)))
               then json 404 (error_body msg_not_found)
               else json 200 (data (fst (store q s)))),
              (snd (store q s), l @ [q]))"
proof -
  have p: "parseInt (ds @ rest) = to_double (of_nat (decimal_value ds))"
    using assms by (intro parseInt_ignores_trailing_text)
  have v: "parseInt (ds @ rest) \<noteq> NaN" "\<not> num_le_zero (parseInt (ds @ rest))"
    using to_double_positive [OF assms(4)] by (simp_all add: p)
  show ?thesis
    by (simp add: get_one_strict_proceeds [OF v] Let_def p q_def)
qed

text \<open>
  \<open>GET /habitaciones/12abc\<close>: the id is not a number (\<open>Number("12abc")\<close> is NaN), and
  the answer is 200 with room 12.
\<close>

theorem get_by_id_accepts_trailing_text_witness:
  "string_to_number (js ''12abc'') = NaN
   \<and> get_habitacion_strict scripted_store (js ''12abc'')
        ([\<lparr>data = room_row 12 101, error = None\<rparr>], [])
      = (json 200 (room_row 12 101),
         ([], [SelectSingle (js ''habitacion_id'') (JNum (Fin 12))]))"
proof -
  have nan: "string_to_number (js ''12abc'') = NaN"
    by (simp add: string_to_number_def non_decimal_literal_def decimal_literal_def
        exponent_part_def js_def is_ws_def is_digit_def)
  have split: "js ''12abc'' = js ''12'' @ js ''abc''" by (simp add: js_def)
  have val: "to_double (of_nat (decimal_value (js ''12''))) = Fin 12"
    by (simp add: js_def decimal_value_def digits_value_def to_double_def)
  have pre: "js ''12'' \<noteq> []" "list_all is_digit (js ''12'')" "0 < decimal_value (js ''12'')"
    "js ''abc'' \<noteq> []" "\<not> is_digit (hd (js ''abc''))"
    by (simp_all add: js_def is_digit_def decimal_value_def digits_value_def)
  show ?thesis
    using get_by_id_accepts_trailing_text [OF pre, of scripted_store
        "[\<lparr>data = room_row 12 101, error = None\<rparr>]" "[]"] nan
    by (simp add: split val scripted_store_def room_row_def)
qed

section \<open>Create\<close>

text \<open>
  C9. The presence check of the strict create tests \<open>num_habi\<close>, \<open>tipo\<close>, \<open>capacidad\<close> and
  \<open>precio\<close> for falsiness: when one of them is falsy (0, the empty string, \<open>null\<close>, absent)
  the request is answered 400 \<open>Todos los campos son obligatorios.\<close> and the store is not
  queried. Only \<open>estado\<close> is compared with \<open>undefined\<close>: when the other four are truthy,
  the request gets that 400 exactly when \<open>estado\<close> is absent.
\<close>

theorem create_presence_check_is_falsiness:
  fixes store :: "'s store"
  shows "(\<not> truthy (prop_of b (js ''num_habi'')) \<or> \<not> truthy (prop_of b (js ''tipo''))
      \<or> \<not> truthy (prop_of b (js ''capacidad'')) \<or> \<not> truthy (prop_of b (js ''precio''))
      \<longrightarrow> post_habitaciones_strict store b w = (json 400 (error_body msg_required), w))
   \<and> (truthy (prop_of b (js ''num_habi'')) \<and> truthy (prop_of b (js ''tipo''))
      \<and> truthy (prop_of b (js ''capacidad'')) \<and> truthy (prop_of b (js ''precio''))
      \<longrightarrow> (fst (post_habitaciones_strict store b w) = json 400 (error_body msg_required))
           = (prop_of b (js ''estado'') = JUndefined))"
proof (intro conjI impI)
  assume "\<not> truthy (prop_of b (js ''num_habi'')) \<or> \<not> truthy (prop_of b (js ''tipo''))
      \<or> \<not> truthy (prop_of b (js ''capacidad'')) \<or> \<not> truthy (prop_of b (js ''precio''))"
  then show "post_habitaciones_strict store b w = (json 400 (error_body msg_required), w)"
    by (intro post_strict_rejects) blast
next
  assume t: "truthy (prop_of b (js ''num_habi'')) \<and> truthy (prop_of b (js ''tipo''))
      \<and> truthy (prop_of b (js ''capacidad'')) \<and> truthy (prop_of b (js ''precio''))"
  show "(fst (post_habitaciones_strict store b w) = json 400 (error_body msg_required))
           = (prop_of b (js ''estado'') = JUndefined)"
  proof (cases "prop_of b (js ''estado'') = JUndefined")
    case True
    then show ?thesis by (simp add: post_strict_rejects)
  next
    case False
    obtain s l where w: "w = (s, l)" by (cases w)
    from t False show ?thesis
      unfolding w
      by (simp add: post_strict_proceeds Let_def json_eq_iff split: option.splits)
  qed
qed

text \<open>
  The check at \<open>num_habi: 0\<close>, at \<open>tipo: ""\<close>, at \<open>estado: false\<close> with the other fields
  truthy, and at a body without \<open>estado\<close>.
\<close>

theorem create_presence_check_is_falsiness_witness:
  "post_habitaciones_strict scripted_store
      [(js ''num_habi'', JNum (Fin 0)), (js ''tipo'', JStr (js ''doble'')),
       (js ''capacidad'', JNum (Fin 2)), (js ''precio'', JNum (Fin 500)),
       (js ''estado'', JBool True)] ([], [])
     = (json 400 (error_body msg_required), ([], []))
   \<and> post_habitaciones_strict scripted_store
      [(js ''num_habi'', JNum (Fin 101)), (js ''tipo'', JStr []),
       (js ''capacidad'', JNum (Fin 2)), (js ''precio'', JNum (Fin 500)),
       (js ''estado'', JBool True)] ([], [])
     = (json 400 (error_body msg_required), ([], []))
   \<and> fst (post_habitaciones_strict scripted_store
      [(js ''num_habi'', JNum (Fin 101)), (js ''tipo'', JStr (js ''doble'')),
       (js ''capacidad'', JNum (Fin 2)), (js ''precio'', JNum (Fin 500)),
       (js ''estado'', JBool False)] ([], []))
     \<noteq> json 400 (error_body msg_required)
   \<and> fst (post_habitaciones_strict scripted_store
      [(js ''num_habi'', JNum (Fin 101)), (js ''tipo'', JStr (js ''doble'')),
       (js ''capacidad'', JNum (Fin 2)), (js ''precio'', JNum (Fin 500))] ([], []))
     = json 400 (error_body msg_required)"
  using
    create_presence_check_is_falsiness [where store = scripted_store and w = "([], [])" and b =
      "[(js ''num_habi'', JNum (Fin 0)), (js ''tipo'', JStr (js ''doble'')),
       (js ''capacidad'', JNum (Fin 2)), (js ''precio'', JNum (Fin 500)),
       (js ''estado'', JBool True)]"]
    create_presence_check_is_falsiness [where store = scripted_store and w = "([], [])" and b =
      "[(js ''num_habi'', JNum (Fin 101)), (js ''tipo'', JStr []),
       (js ''capacidad'', JNum (Fin 2)), (js ''precio'', JNum (Fin 500)),
       (js ''estado'', JBool True)]"]
    create_presence_check_is_falsiness [where store = scripted_store and w = "([], [])" and b =
      "[(js ''num_habi'', JNum (Fin 101)), (js ''tipo'', JStr (js ''doble'')),
       (js ''capacidad'', JNum (Fin 2)), (js ''precio'', JNum (Fin 500)),
       (js ''estado'', JBool False)]"]
    create_presence_check_is_falsiness [where store = scripted_store and w = "([], [])" and b =
      "[(js ''num_habi'', JNum (Fin 101)), (js ''tipo'', JStr (js ''doble'')),
       (js ''capacidad'', JNum (Fin 2)), (js ''precio'', JNum (Fin 500))]"]
  by (simp add: eval_simps)

text \<open>
  C1, as stated, fails: a body that contains all five fields, with \<open>estado: false\<close> and
  \<open>num_habi: 0\<close>, is answered 400 by the presence check, and the store is not queried.
\<close>

theorem create_estado_false_counterexample:
  "prop_of [(js ''num_habi'', JNum (Fin 0)), (js ''tipo'', JStr (js ''doble'')),
       (js ''capacidad'', JNum (Fin 2)), (js ''precio'', JNum (Fin 500)),
       (js ''estado'', JBool False)] (js ''estado'') = JBool False
   \<and> map_of [(js ''num_habi'', JNum (Fin 0)), (js ''tipo'', JStr (js ''doble'')),
       (js ''capacidad'', JNum (Fin 2)), (js ''precio'', JNum (Fin 500)),
       (js ''estado'', JBool False)] (js ''num_habi'') = Some (JNum (Fin 0))
   \<and> post_habitaciones_strict scripted_store
      [(js ''num_habi'', JNum (Fin 0)), (js ''tipo'', JStr (js ''doble'')),
       (js ''capacidad'', JNum (Fin 2)), (js ''precio'', JNum (Fin 500)),
       (js ''estado'', JBool False)]
      ([\<lparr>data = JNull, error = None\<rparr>, \<lparr>data = room_row 1 0, error = None\<rparr>], [])
     = (json 400 (error_body msg_required),
        ([\<lparr>data = JNull, error = None\<rparr>, \<lparr>data = room_row 1 0, error = None\<rparr>], []))"
  by (simp add: post_habitaciones_strict_def eval_simps)

text \<open>
  C1, amended. When \<open>estado\<close> is \<open>false\<close> and \<open>num_habi\<close>, \<open>tipo\<close>, \<open>capacidad\<close> and
  \<open>precio\<close> are truthy, the request is not answered with the missing-field 400: the
  handler awaits the uniqueness query on \<open>num_habi\<close> next, and when that query carries no
  row and the insert that follows reports no error, the answer is 201 with the row the
  insert returned.
\<close>

theorem create_estado_false_accepted:
  fixes store :: "'s store" and b :: jsobject
  defines "num_habi \<equiv> prop_of b (js ''num_habi'')"
      and "tipo \<equiv> prop_of b (js ''tipo'')"
      and "capacidad \<equiv> prop_of b (js ''capacidad'')"
      and "precio \<equiv> prop_of b (js ''precio'')"
  defines "q \<equiv> SelectSingle (js ''num_habi'') num_habi"
      and "ins \<equiv> InsertSingle (room_fields num_habi tipo capacidad precio (JBool False))"
  assumes "prop_of b (js ''estado'') = JBool False"
      and "truthy num_habi" "truthy tipo" "truthy capacidad" "truthy precio"
  shows "fst (post_habitaciones_strict store b (s, l)) \<noteq> json 400 (error_body msg_required)
    \<and> take (Suc (length l)) (snd (snd (post_habitaciones_strict store b (s, l)))) = l @ [q]
    \<and> (\<not> truthy (data (fst (store q s))) \<and> error (fst (store ins (snd (store q s)))) = None
        \<longrightarrow> post_habitaciones_strict store b (s, l)
            = (json 201 (data (fst (store ins (snd (store q s))))),
               (snd (store ins (snd (store q s))), l @ [q, ins])))"
  using assms
  by (simp add: post_strict_proceeds Let_def json_eq_iff split: option.splits)

theorem create_estado_false_accepted_witness:
  "post_habitaciones_strict scripted_store
      [(js ''num_habi'', JNum (Fin 101)), (js ''tipo'', JStr (js ''doble'')),
       (js ''capacidad'', JNum (Fin 2)), (js ''precio'', JNum (Fin 500)),
       (js ''estado'', JBool False)]
      ([\<lparr>data = JNull, error = Some \<lparr>message = js ''no rows''\<rparr>\<rparr>,
        \<lparr>data = room_row 1 101, error = None\<rparr>], [])
     = (json 201 (room_row 1 101),
        ([], [SelectSingle (js ''num_habi'') (JNum (Fin 101)),
              InsertSingle (room_fields (JNum (Fin 101)) (JStr (js ''doble'')) (JNum (Fin 2))
                 (JNum (Fin 500)) (JBool False))]))"
  using create_estado_false_accepted [where store = scripted_store and l = "[]"
      and b = "[(js ''num_habi'', JNum (Fin 101)), (js ''tipo'', JStr (js ''doble'')),
       (js ''capacidad'', JNum (Fin 2)), (js ''precio'', JNum (Fin 500)),
       (js ''estado'', JBool False)]"
      and s = "[\<lparr>data = JNull, error = Some \<lparr>message = js ''no rows''\<rparr>\<rparr>,
        \<lparr>data = room_row 1 101, error = None\<rparr>]"]
  by (simp add: eval_simps)

text \<open>
  C3, as stated, fails: that a row with the number exists does not decide the answer.
  The pre-check keeps only the data of its answer, so when the query reports an error
  the handler goes on to the insert. Room 101 is stored, the read fails, and a create
  with \<open>num_habi: 101\<close> is answered 201 with a second row for 101 in the table.
\<close>

theorem create_conflict_counterexample:
  "list_ex (row_has (js ''num_habi'') (JNum (Fin 101))) [room_row 1 101]
   \<and> post_habitaciones_strict reads_fail_store
      [(js ''num_habi'', JNum (Fin 101)), (js ''tipo'', JStr (js ''suite'')),
       (js ''capacidad'', JNum (Fin 4)), (js ''precio'', JNum (Fin 900)),
       (js ''estado'', JBool True)]
      ([room_row 1 101], [])
     = (json 201 (room_fields (JNum (Fin 101)) (JStr (js ''suite'')) (JNum (Fin 4))
                    (JNum (Fin 900)) (JBool True)),
        ([room_row 1 101,
          room_fields (JNum (Fin 101)) (JStr (js ''suite'')) (JNum (Fin 4))
            (JNum (Fin 900)) (JBool True)],
         [SelectSingle (js ''num_habi'') (JNum (Fin 101)),
          InsertSingle (room_fields (JNum (Fin 101)) (JStr (js ''suite'')) (JNum (Fin 4))
            (JNum (Fin 900)) (JBool True))]))"
  by (simp add: post_strict_proceeds Let_def reads_fail_store_def eval_simps)

text \<open>
  C3, amended. When the strict create passes the presence check and the uniqueness query
  on \<open>num_habi\<close> answers with a row, the answer is 409
  \<open>El numero de habitacion ya existe.\<close>, that query is the only one the handler awaits
  (no insert), and the store is left in the state the query left it in: unchanged when the
  query does not write.
\<close>

theorem create_conflict_skips_insert:
  fixes store :: "'s store" and b :: jsobject
  defines "num_habi \<equiv> prop_of b (js ''num_habi'')"
  defines "q \<equiv> SelectSingle (js ''num_habi'') num_habi"
  assumes "truthy num_habi" "truthy (prop_of b (js ''tipo''))"
      "truthy (prop_of b (js ''capacidad''))" "truthy (prop_of b (js ''precio''))"
      "prop_of b (js ''estado'') \<noteq> JUndefined"
      and "truthy (data (fst (store q s)))"
  shows "post_habitaciones_strict store b (s, l)
           = (json 409 (error_body msg_taken), (snd (store q s), l @ [q]))
       \<and> (snd (store q s) = s \<longrightarrow> fst (snd (post_habitaciones_strict store b (s, l))) = s)"
  using assms by (simp add: post_strict_proceeds Let_def)

text \<open>Room 101 is stored; a second create with \<open>num_habi: 101\<close> leaves the rows as they were.\<close>

theorem create_conflict_skips_insert_witness:
  "post_habitaciones_strict (const_store \<lparr>data = room_row 1 101, error = None\<rparr>)
      [(js ''num_habi'', JNum (Fin 101)), (js ''tipo'', JStr (js ''suite'')),
       (js ''capacidad'', JNum (Fin 4)), (js ''precio'', JNum (Fin 900)),
       (js ''estado'', JBool True)]
      ([room_row 1 101], [])
     = (json 409 (error_body msg_taken),
        ([room_row 1 101], [SelectSingle (js ''num_habi'') (JNum (Fin 101))]))"
  using create_conflict_skips_insert [where l = "[]" and s = "[room_row 1 101]"
      and store = "const_store \<lparr>data = room_row 1 101, error = None\<rparr>"
      and b = "[(js ''num_habi'', JNum (Fin 101)), (js ''tipo'', JStr (js ''suite'')),
       (js ''capacidad'', JNum (Fin 4)), (js ''precio'', JNum (Fin 900)),
       (js ''estado'', JBool True)]"]
  by (simp add: eval_simps)

section \<open>Update\<close>

text \<open>
  C2. The spec says a field left out of a PATCH body is not validated. The code checks
  \<open>num_habi\<close> with no presence guard: for every valid id and every body without
  \<open>num_habi\<close> the answer is 400 \<open>Numero de habitacion invalida!\<close>, before any other field
  is looked at and before any query, because \<open>isNaN(undefined)\<close> is true.
\<close>

theorem patch_requires_num_habi:
  fixes store :: "'s store"
  assumes "parseInt i \<noteq> NaN" and "\<not> num_le_zero (parseInt i)"
      and "map_of b (js ''num_habi'') = None"
  shows "patch_habitaciones_strict store i b w
           = (Inr (json 400 (error_body msg_bad_num_habi)), w)"
  using assms
  by (simp add: patch_habitaciones_strict_def Let_def prop_of_def nan_or_le_zero_def js_isNaN_def)

text \<open>
  \<open>PATCH /habitaciones/5\<close> with the body \<open>{"precio": 600}\<close>, room 5 being stored, and
  with the body \<open>{"precio": -10}\<close>, which the spec expects to be answered with the
  message for \<open>precio\<close>.
\<close>

theorem patch_requires_num_habi_witness:
  "patch_habitaciones_strict scripted_store (js ''5'') [(js ''precio'', JNum (Fin 600))]
      ([\<lparr>data = room_row 5 101, error = None\<rparr>, \<lparr>data = room_row 5 101, error = None\<rparr>], [])
     = (Inr (json 400 (error_body msg_bad_num_habi)),
        ([\<lparr>data = room_row 5 101, error = None\<rparr>, \<lparr>data = room_row 5 101, error = None\<rparr>], []))
   \<and> patch_habitaciones_strict scripted_store (js ''5'') [(js ''precio'', JNum (Fin (- 10)))]
      ([\<lparr>data = room_row 5 101, error = None\<rparr>, \<lparr>data = room_row 5 101, error = None\<rparr>], [])
     = (Inr (json 400 (error_body msg_bad_num_habi)),
        ([\<lparr>data = room_row 5 101, error = None\<rparr>, \<lparr>data = room_row 5 101, error = None\<rparr>], []))"
  using
    patch_requires_num_habi [where store = scripted_store and i = "js ''5''"
      and b = "[(js ''precio'', JNum (Fin 600))]"
      and w = "([\<lparr>data = room_row 5 101, error = None\<rparr>,
                 \<lparr>data = room_row 5 101, error = None\<rparr>], [])"]
    patch_requires_num_habi [where store = scripted_store and i = "js ''5''"
      and b = "[(js ''precio'', JNum (Fin (- 10)))]"
      and w = "([\<lparr>data = room_row 5 101, error = None\<rparr>,
                 \<lparr>data = room_row 5 101, error = None\<rparr>], [])"]
  by (simp add: parseInt_examples js_eq_iff)

section \<open>Delete\<close>

text \<open>
  The flow of the two delete handlers. Strict: 400 for an id whose \<open>parseInt\<close> is NaN, zero
  or negative; otherwise the existence query, 404 when it carries no row, and only then
  the delete, answered 204 with an empty body, or 500 with the store's message when the
  delete reports an error. Lenient: the delete is the only query, for the id as given,
  with the same two answers.
\<close>

lemma delete_flow:
  fixes store :: "'s store" and i :: jsstring and s :: 's
  defines "q \<equiv> SelectSingle (js ''habitacion_id'') (JNum (parseInt i))"
      and "del \<equiv> DeleteEq (js ''habitacion_id'') (JNum (parseInt i))"
      and "del' \<equiv> DeleteEq (js ''habitacion_id'') (JStr i)"
  defines "s1 \<equiv> snd (store q s)"
  shows
   "(parseInt i = NaN \<or> num_le_zero (parseInt i)
       \<longrightarrow> delete_habitaciones_strict store i (s, l) = (json 400 (error_body msg_bad_id), (s, l)))
  \<and> (parseInt i \<noteq> NaN \<and> \<not> num_le_zero (parseInt i) \<and> \<not> truthy (data (fst (store q s)))
       \<longrightarrow> delete_habitaciones_strict store i (s, l)
           = (json 404 (error_body msg_not_found), (s1, l @ [q])))
  \<and> (parseInt i \<noteq> NaN \<and> \<not> num_le_zero (parseInt i) \<and> truthy (data (fst (store q s)))
       \<longrightarrow> delete_habitaciones_strict store i (s, l)
           = ((case error (fst (store del s1)) of
                 None \<Rightarrow> send_empty 204
               | Some e \<Rightarrow> json 500 (error_body (message e))),
              (snd (store del s1), l @ [q, del])))
  \<and> delete_habitaciones_lenient store i (s, l)
       = ((case error (fst (store del' s)) of
             None \<Rightarrow> send_empty 204
           | Some e \<Rightarrow> json 500 (error_body (message e))),
          (snd (store del' s), l @ [del']))"
  unfolding q_def del_def del'_def s1_def
  by (auto simp: delete_strict_bad_id delete_strict_proceeds delete_lenient_run Let_def
        split: option.splits)

text \<open>
  C8. The spec asks for 400 on every id that is not a positive integer, and for the
  delete only otherwise. The code validates what \<open>parseInt\<close> reads: for an id made of
  digits that denote a positive integer followed by any other text, the strict handler
  looks that integer up and, when the row exists and the delete reports no error,
  deletes it and answers 204.
\<close>

theorem delete_accepts_trailing_text:
  fixes store :: "'s store" and ds rest :: jsstring and s :: 's
  defines "n \<equiv> JNum (to_double (of_nat (decimal_value ds)))"
  defines "q \<equiv> SelectSingle (js ''habitacion_id'') n"
      and "del \<equiv> DeleteEq (js ''habitacion_id'') n"
  assumes "ds \<noteq> []" and "list_all is_digit ds" and "0 < decimal_value ds"
      and "rest \<noteq> []" and "\<not> is_digit (hd rest)"
      and "truthy (data (fst (store q s)))"
      and "error (fst (store del (snd (store q s)))) = None"
  shows "delete_habitaciones_strict store (ds @ rest) (s, l)
           = (send_empty 204, (snd (store del (snd (store q s))), l @ [q, del]))"
proof -
  have p: "parseInt (ds @ rest) = to_double (of_nat (decimal_value ds))"
    using assms by (intro parseInt_ignores_trailing_text)
  have v: "parseInt (ds @ rest) \<noteq> NaN" "\<not> num_le_zero (parseInt (ds @ rest))"
    using to_double_positive [OF assms(6)] by (simp_all add: p)
  show ?thesis
    using assms(9,10)
    by (simp add: delete_strict_proceeds [OF v] Let_def p q_def del_def n_def)
qed

text \<open>\<open>DELETE /habitaciones/12abc\<close>, room 12 being stored: room 12 is deleted.\<close>

theorem delete_accepts_trailing_text_witness:
  "delete_habitaciones_strict scripted_store (js ''12abc'')
        ([\<lparr>data = room_row 12 101, error = None\<rparr>, \<lparr>data = JNull, error = None\<rparr>], [])
      = (send_empty 204,
         ([], [SelectSingle (js ''habitacion_id'') (JNum (Fin 12)),
               DeleteEq (js ''habitacion_id'') (JNum (Fin 12))]))"
proof -
  have split: "js ''12abc'' = js ''12'' @ js ''abc''" by (simp add: js_def)
  have val: "to_double (of_nat (decimal_value (js ''12''))) = Fin 12"
    by (simp add: js_def decimal_value_def digits_value_def to_double_def)
  have pre: "js ''12'' \<noteq> []" "list_all is_digit (js ''12'')" "0 < decimal_value (js ''12'')"
    "js ''abc'' \<noteq> []" "\<not> is_digit (hd (js ''abc''))"
    by (simp_all add: js_def is_digit_def decimal_value_def digits_value_def)
  show ?thesis
    using delete_accepts_trailing_text [OF pre, of scripted_store
        "[\<lparr>data = room_row 12 101, error = None\<rparr>, \<lparr>data = JNull, error = None\<rparr>]" "[]"]
    by (simp add: split val scripted_store_def room_row_def)
qed

section \<open>Errors of the store\<close>

text \<open>
  C4, as stated, fails: the lenient GET by id answers an error of its query with 404
  \<open>Habitacion no encontrada\<close>, not with 500 and the store's message.
\<close>

theorem store_error_counterexample:
  "get_habitacion_lenient
      (const_store \<lparr>data = JNull, error = Some \<lparr>message = js ''connection refused''\<rparr>\<rparr>)
      (js ''7'') ((), [])
     = (json 404 (error_body msg_not_found),
        ((), [SelectSingle (js ''habitacion_id'') (JStr (js ''7''))]))
   \<and> json 404 (error_body msg_not_found) \<noteq> json 500 (error_body (js ''connection refused''))"
  by (simp add: get_one_lenient_run Let_def const_store_def json_eq_iff)

text \<open>
  C4, amended. An error reported by the list query, the insert, the update or the delete
  is answered 500 with the body \<open>{ error: m }\<close>, \<open>m\<close> the store's message as it came, in
  both variants (in the strict variant, for the requests that reach that query). Errors
  of the single-row select queries are left out: GET by id answers them 404 (C5) and the
  strict variant's pre-checks drop them (C10).
\<close>

theorem store_error_gives_500:
  fixes store :: "'s store" and b :: jsobject and i :: jsstring and e :: store_error
  defines "answer \<equiv> json 500 (error_body (message e))"
  defines "room \<equiv> room_fields (prop_of b (js ''num_habi'')) (prop_of b (js ''tipo''))
                 (prop_of b (js ''capacidad'')) (prop_of b (js ''precio''))
                 (prop_of b (js ''estado''))"
  defines "by_num \<equiv> SelectSingle (js ''num_habi'') (prop_of b (js ''num_habi''))"
      and "by_id \<equiv> SelectSingle (js ''habitacion_id'') (JNum (parseInt i))"
  shows
   "(error (fst (store SelectAll s)) = Some e
       \<longrightarrow> fst (get_habitaciones_strict store (s, l)) = answer
         \<and> fst (get_habitaciones_lenient store (s, l)) = answer)
  \<and> (error (fst (store (InsertSingle room) s)) = Some e
       \<longrightarrow> fst (post_habitaciones_lenient store b (s, l)) = answer)
  \<and> (error (fst (store (UpdateSingle room (js ''habitacion_id'') (JStr i)) s)) = Some e
       \<longrightarrow> fst (put_habitaciones_lenient store i b (s, l)) = answer)
  \<and> (error (fst (store (DeleteEq (js ''habitacion_id'') (JStr i)) s)) = Some e
       \<longrightarrow> fst (delete_habitaciones_lenient store i (s, l)) = answer)
  \<and> (truthy (prop_of b (js ''num_habi'')) \<and> truthy (prop_of b (js ''tipo''))
      \<and> truthy (prop_of b (js ''capacidad'')) \<and> truthy (prop_of b (js ''precio''))
      \<and> prop_of b (js ''estado'') \<noteq> JUndefined
      \<and> \<not> truthy (data (fst (store by_num s)))
      \<and> error (fst (store (InsertSingle room) (snd (store by_num s)))) = Some e
       \<longrightarrow> fst (post_habitaciones_strict store b (s, l)) = answer)
  \<and> (parseInt i \<noteq> NaN \<and> \<not> num_le_zero (parseInt i)
      \<and> nan_or_le_zero (prop_of b (js ''num_habi'')) = Inr False
      \<and> (\<not> truthy (prop_of b (js ''tipo'')) \<or> is_string (prop_of b (js ''tipo'')))
      \<and> (if truthy (prop_of b (js ''capacidad''))
          then nan_or_le_zero (prop_of b (js ''capacidad'')) else Inr False) = Inr False
      \<and> (if truthy (prop_of b (js ''precio''))
          then nan_or_le_zero (prop_of b (js ''precio'')) else Inr False) = Inr False
      \<and> (prop_of b (js ''estado'') = JUndefined \<or> is_boolean (prop_of b (js ''estado'')))
      \<and> truthy (data (fst (store by_id s)))
      \<and> error (fst (store (UpdateSingle room (js ''habitacion_id'') (JNum (parseInt i)))
                  (snd (store by_id s)))) = Some e
       \<longrightarrow> fst (patch_habitaciones_strict store i b (s, l)) = Inr answer)
  \<and> (parseInt i \<noteq> NaN \<and> \<not> num_le_zero (parseInt i)
      \<and> truthy (data (fst (store by_id s)))
      \<and> error (fst (store (DeleteEq (js ''habitacion_id'') (JNum (parseInt i)))
                  (snd (store by_id s)))) = Some e
       \<longrightarrow> fst (delete_habitaciones_strict store i (s, l)) = answer)"
proof (intro conjI impI)
  assume "error (fst (store SelectAll s)) = Some e"
  then show "fst (get_habitaciones_strict store (s, l)) = answer"
    and "fst (get_habitaciones_lenient store (s, l)) = answer"
    by (simp_all add: list_strict_run list_lenient_run Let_def answer_def)
next
  assume "error (fst (store (InsertSingle room) s)) = Some e"
  then show "fst (post_habitaciones_lenient store b (s, l)) = answer"
    by (simp add: post_lenient_run Let_def answer_def room_def)
next
  assume "error (fst (store (UpdateSingle room (js ''habitacion_id'') (JStr i)) s)) = Some e"
  then show "fst (put_habitaciones_lenient store i b (s, l)) = answer"
    by (simp add: put_lenient_run Let_def answer_def room_def)
next
  assume "error (fst (store (DeleteEq (js ''habitacion_id'') (JStr i)) s)) = Some e"
  then show "fst (delete_habitaciones_lenient store i (s, l)) = answer"
    by (simp add: delete_lenient_run Let_def answer_def)
next
  assume "truthy (prop_of b (js ''num_habi'')) \<and> truthy (prop_of b (js ''tipo''))
      \<and> truthy (prop_of b (js ''capacidad'')) \<and> truthy (prop_of b (js ''precio''))
      \<and> prop_of b (js ''estado'') \<noteq> JUndefined
      \<and> \<not> truthy (data (fst (store by_num s)))
      \<and> error (fst (store (InsertSingle room) (snd (store by_num s)))) = Some e"
  then show "fst (post_habitaciones_strict store b (s, l)) = answer"
    by (simp add: post_strict_proceeds Let_def answer_def room_def by_num_def)
next
  assume "parseInt i \<noteq> NaN \<and> \<not> num_le_zero (parseInt i)
      \<and> nan_or_le_zero (prop_of b (js ''num_habi'')) = Inr False
      \<and> (\<not> truthy (prop_of b (js ''tipo'')) \<or> is_string (prop_of b (js ''tipo'')))
      \<and> (if truthy (prop_of b (js ''capacidad''))
          then nan_or_le_zero (prop_of b (js ''capacidad'')) else Inr False) = Inr False
      \<and> (if truthy (prop_of b (js ''precio''))
          then nan_or_le_zero (prop_of b (js ''precio'')) else Inr False) = Inr False
      \<and> (prop_of b (js ''estado'') = JUndefined \<or> is_boolean (prop_of b (js ''estado'')))
      \<and> truthy (data (fst (store by_id s)))
      \<and> error (fst (store (UpdateSingle room (js ''habitacion_id'') (JNum (parseInt i)))
                  (snd (store by_id s)))) = Some e"
  then show "fst (patch_habitaciones_strict store i b (s, l)) = Inr answer"
    by (subst patch_strict_proceeds) (auto simp: Let_def answer_def room_def by_id_def)
next
  assume "parseInt i \<noteq> NaN \<and> \<not> num_le_zero (parseInt i)
      \<and> truthy (data (fst (store by_id s)))
      \<and> error (fst (store (DeleteEq (js ''habitacion_id'') (JNum (parseInt i)))
                  (snd (store by_id s)))) = Some e"
  then show "fst (delete_habitaciones_strict store i (s, l)) = answer"
    by (simp add: delete_strict_proceeds Let_def answer_def by_id_def)
qed

text \<open>
  The store times out: on the list query, on the lenient insert, update and delete, and
  on the strict insert, update and delete after a pre-check that let the request pass.
\<close>

theorem store_error_gives_500_witness:
  "fst (get_habitaciones_strict scripted_store
         ([\<lparr>data = JNull, error = Some \<lparr>message = js ''timeout''\<rparr>\<rparr>], []))
     = json 500 (error_body (js ''timeout''))
   \<and> fst (get_habitaciones_lenient scripted_store
         ([\<lparr>data = JNull, error = Some \<lparr>message = js ''timeout''\<rparr>\<rparr>], []))
     = json 500 (error_body (js ''timeout''))
   \<and> fst (post_habitaciones_lenient scripted_store
         [(js ''num_habi'', JNum (Fin 101)), (js ''tipo'', JStr (js ''doble'')),
          (js ''capacidad'', JNum (Fin 2)), (js ''precio'', JNum (Fin 500)),
          (js ''estado'', JBool True)]
         ([\<lparr>data = JNull, error = Some \<lparr>message = js ''timeout''\<rparr>\<rparr>], []))
     = json 500 (error_body (js ''timeout''))
   \<and> fst (put_habitaciones_lenient scripted_store (js ''5'')
         [(js ''num_habi'', JNum (Fin 101)), (js ''tipo'', JStr (js ''doble'')),
          (js ''capacidad'', JNum (Fin 2)), (js ''precio'', JNum (Fin 500)),
          (js ''estado'', JBool True)]
         ([\<lparr>data = JNull, error = Some \<lparr>message = js ''timeout''\<rparr>\<rparr>], []))
     = json 500 (error_body (js ''timeout''))
   \<and> fst (delete_habitaciones_lenient scripted_store (js ''5'')
         ([\<lparr>data = JNull, error = Some \<lparr>message = js ''timeout''\<rparr>\<rparr>], []))
     = json 500 (error_body (js ''timeout''))
   \<and> fst (post_habitaciones_strict scripted_store
         [(js ''num_habi'', JNum (Fin 101)), (js ''tipo'', JStr (js ''doble'')),
          (js ''capacidad'', JNum (Fin 2)), (js ''precio'', JNum (Fin 500)),
          (js ''estado'', JBool True)]
         ([\<lparr>data = JNull, error = Some \<lparr>message = js ''no rows''\<rparr>\<rparr>,
           \<lparr>data = JNull, error = Some \<lparr>message = js ''timeout''\<rparr>\<rparr>], []))
     = json 500 (error_body (js ''timeout''))
   \<and> fst (patch_habitaciones_strict scripted_store (js ''5'')
         [(js ''num_habi'', JNum (Fin 101)), (js ''tipo'', JStr (js ''doble'')),
          (js ''capacidad'', JNum (Fin 2)), (js ''precio'', JNum (Fin 500)),
          (js ''estado'', JBool True)]
         ([\<lparr>data = room_row 5 101, error = None\<rparr>,
           \<lparr>data = JNull, error = Some \<lparr>message = js ''timeout''\<rparr>\<rparr>], []))
     = Inr (json 500 (error_body (js ''timeout'')))
   \<and> fst (delete_habitaciones_strict scripted_store (js ''5'')
         ([\<lparr>data = room_row 5 101, error = None\<rparr>,
           \<lparr>data = JNull, error = Some \<lparr>message = js ''timeout''\<rparr>\<rparr>], []))
     = json 500 (error_body (js ''timeout''))"
  using
    store_error_gives_500 [where store = scripted_store and i = "js ''5''" and l = "[]"
      and e = "\<lparr>message = js ''timeout''\<rparr>"
      and b = "[(js ''num_habi'', JNum (Fin 101)), (js ''tipo'', JStr (js ''doble'')),
          (js ''capacidad'', JNum (Fin 2)), (js ''precio'', JNum (Fin 500)),
          (js ''estado'', JBool True)]"
      and s = "[\<lparr>data = JNull, error = Some \<lparr>message = js ''timeout''\<rparr>\<rparr>]"]
    store_error_gives_500 [where store = scripted_store and i = "js ''5''" and l = "[]"
      and e = "\<lparr>message = js ''timeout''\<rparr>"
      and b = "[(js ''num_habi'', JNum (Fin 101)), (js ''tipo'', JStr (js ''doble'')),
          (js ''capacidad'', JNum (Fin 2)), (js ''precio'', JNum (Fin 500)),
          (js ''estado'', JBool True)]"
      and s = "[\<lparr>data = JNull, error = Some \<lparr>message = js ''no rows''\<rparr>\<rparr>,
           \<lparr>data = JNull, error = Some \<lparr>message = js ''timeout''\<rparr>\<rparr>]"]
    store_error_gives_500 [where store = scripted_store and i = "js ''5''" and l = "[]"
      and e = "\<lparr>message = js ''timeout''\<rparr>"
      and b = "[(js ''num_habi'', JNum (Fin 101)), (js ''tipo'', JStr (js ''doble'')),
          (js ''capacidad'', JNum (Fin 2)), (js ''precio'', JNum (Fin 500)),
          (js ''estado'', JBool True)]"
      and s = "[\<lparr>data = room_row 5 101, error = None\<rparr>,
           \<lparr>data = JNull, error = Some \<lparr>message = js ''timeout''\<rparr>\<rparr>]"]
  by (simp add: eval_simps parseInt_examples)

text \<open>
  C10. In the strict PATCH and DELETE, the existence pre-check reads only the data of
  its answer. For a request that reaches the pre-check (a valid id and, for PATCH, a body
  that passes the field checks), whenever the answer carries no row, with or without an
  error, the response is 404 \<open>Habitacion no encontrada\<close> and the pre-check is the only
  query awaited: no update, no delete.
\<close>

theorem precheck_error_discarded:
  fixes store :: "'s store" and i :: jsstring and s :: 's and b :: jsobject
  defines "q \<equiv> SelectSingle (js ''habitacion_id'') (JNum (parseInt i))"
  assumes "parseInt i \<noteq> NaN" and "\<not> num_le_zero (parseInt i)"
      and "\<not> truthy (data (fst (store q s)))"
  shows "delete_habitaciones_strict store i (s, l)
           = (json 404 (error_body msg_not_found), (snd (store q s), l @ [q]))
       \<and> (nan_or_le_zero (prop_of b (js ''num_habi'')) = Inr False
          \<and> (\<not> truthy (prop_of b (js ''tipo'')) \<or> is_string (prop_of b (js ''tipo'')))
          \<and> (if truthy (prop_of b (js ''capacidad''))
              then nan_or_le_zero (prop_of b (js ''capacidad'')) else Inr False) = Inr False
          \<and> (if truthy (prop_of b (js ''precio''))
              then nan_or_le_zero (prop_of b (js ''precio'')) else Inr False) = Inr False
          \<and> (prop_of b (js ''estado'') = JUndefined \<or> is_boolean (prop_of b (js ''estado'')))
          \<longrightarrow> patch_habitaciones_strict store i b (s, l)
              = (Inr (json 404 (error_body msg_not_found)), (snd (store q s), l @ [q])))"
proof (intro conjI impI)
  show "delete_habitaciones_strict store i (s, l)
           = (json 404 (error_body msg_not_found), (snd (store q s), l @ [q]))"
    using assms by (simp add: delete_strict_proceeds Let_def)
next
  assume "nan_or_le_zero (prop_of b (js ''num_habi'')) = Inr False
          \<and> (\<not> truthy (prop_of b (js ''tipo'')) \<or> is_string (prop_of b (js ''tipo'')))
          \<and> (if truthy (prop_of b (js ''capacidad''))
              then nan_or_le_zero (prop_of b (js ''capacidad'')) else Inr False) = Inr False
          \<and> (if truthy (prop_of b (js ''precio''))
              then nan_or_le_zero (prop_of b (js ''precio'')) else Inr False) = Inr False
          \<and> (prop_of b (js ''estado'') = JUndefined \<or> is_boolean (prop_of b (js ''estado'')))"
  with assms show "patch_habitaciones_strict store i b (s, l)
              = (Inr (json 404 (error_body msg_not_found)), (snd (store q s), l @ [q]))"
    by (subst patch_strict_proceeds) (auto simp: Let_def)
qed

text \<open>The pre-check times out: 404, and the answer scripted for the next query is not used.\<close>

theorem precheck_error_discarded_witness:
  "delete_habitaciones_strict scripted_store (js ''5'')
      ([\<lparr>data = JNull, error = Some \<lparr>message = js ''timeout''\<rparr>\<rparr>,
        \<lparr>data = JNull, error = None\<rparr>], [])
     = (json 404 (error_body msg_not_found),
        ([\<lparr>data = JNull, error = None\<rparr>], [SelectSingle (js ''habitacion_id'') (JNum (Fin 5))]))
   \<and> patch_habitaciones_strict scripted_store (js ''5'')
      [(js ''num_habi'', JNum (Fin 101)), (js ''precio'', JNum (Fin 600))]
      ([\<lparr>data = JNull, error = Some \<lparr>message = js ''timeout''\<rparr>\<rparr>,
        \<lparr>data = room_row 5 101, error = None\<rparr>], [])
     = (Inr (json 404 (error_body msg_not_found)),
        ([\<lparr>data = room_row 5 101, error = None\<rparr>],
         [SelectSingle (js ''habitacion_id'') (JNum (Fin 5))]))"
  using
    precheck_error_discarded [where store = scripted_store and i = "js ''5''" and l = "[]"
      and b = "[(js ''num_habi'', JNum (Fin 101)), (js ''precio'', JNum (Fin 600))]"
      and s = "[\<lparr>data = JNull, error = Some \<lparr>message = js ''timeout''\<rparr>\<rparr>,
                \<lparr>data = JNull, error = None\<rparr>]"]
    precheck_error_discarded [where store = scripted_store and i = "js ''5''" and l = "[]"
      and b = "[(js ''num_habi'', JNum (Fin 101)), (js ''precio'', JNum (Fin 600))]"
      and s = "[\<lparr>data = JNull, error = Some \<lparr>message = js ''timeout''\<rparr>\<rparr>,
                \<lparr>data = room_row 5 101, error = None\<rparr>]"]
  by (simp add: eval_simps parseInt_examples)

end
